theory Spec2Isabelle
  imports Main "HOL-Library.Char_ord" "HOL-Library.List_Lexorder"
begin

section \<open>The task store (database\_manager.py, task.py)\<close>

text \<open>
  A Python \<open>Task\<close> object (task.py). \<open>start_time\<close>, \<open>event_id\<close> and
  \<open>repeat_days\<close> default to \<open>None\<close>. Strings are lists of bytes (UTF-8); the order on
  them (HOL-Library.List\_Lexorder over Char\_ord) is the lexicographic order on bytes, which
  is the order Python gives \<open>str\<close> and SQLite gives TEXT.
\<close>

record task =
  title :: string
  start_time :: "string option"
  completed :: bool
  source :: string
  event_id :: "string option"
  is_recurring :: bool
  repeat_days :: "string option"
  priority :: string

text \<open>
  A row of the table \<open>tasks\<close>, one field per column. \<open>is_recurring\<close> is an INTEGER
  column that the queries test against 0, 1 and NULL, so it is an optional integer.
\<close>

record row =
  c_id :: int
  c_title :: string
  c_start_time :: "string option"
  c_completed :: int
  c_source :: string
  c_event_id :: "string option"
  c_is_recurring :: "int option"
  c_repeat_days :: "string option"
  c_priority :: string

text \<open>
  The database: the rows of \<open>tasks\<close> in rowid order, and the AUTOINCREMENT counter
  (the largest id ever given out).
\<close>

record db =
  tasks :: "row list"
  seq :: int

datatype error = ValueError | OverflowError

definition int_of_bool :: "bool \<Rightarrow> int" where
  "int_of_bool b = (if b then 1 else 0)"

text \<open>\<open>add_task\<close>: one INSERT; the id column is filled by AUTOINCREMENT.\<close>

definition add_task :: "db \<Rightarrow> task \<Rightarrow> db" where
  "add_task d t =
     \<lparr>tasks = tasks d @
        [\<lparr>c_id = seq d + 1, c_title = title t, c_start_time = start_time t,
          c_completed = int_of_bool (completed t), c_source = source t,
          c_event_id = event_id t, c_is_recurring = Some (int_of_bool (is_recurring t)),
          c_repeat_days = repeat_days t, c_priority = priority t\<rparr>],
      seq = seq d + 1\<rparr>"

text \<open>
  \<open>add_schedule_item\<close>: \<open>if not task.start_time: raise ValueError\<close>. In Python
  \<open>not s\<close> holds for \<open>None\<close> and for the empty string.
\<close>

definition falsy :: "string option \<Rightarrow> bool" where
  "falsy s = (case s of None \<Rightarrow> True | Some x \<Rightarrow> x = [])"

definition add_schedule_item :: "db \<Rightarrow> task \<Rightarrow> error + db" where
  "add_schedule_item d t = (if falsy (start_time t) then Inl ValueError else Inr (add_task d t))"

section \<open>Dates and times (the part of \<open>datetime\<close> the code uses)\<close>

text \<open>
  A \<open>datetime.date\<close> holds a year, a month and a day; dates compare as these triples do.
  A valid date has a year in 1..9999, a month in 1..12 and a day that exists in the month.
  A \<open>datetime.datetime\<close> is kept as its date and its wall-clock time. The UTC offset an
  aware datetime carries is not kept: the code reads \<open>date()\<close>, \<open>time()\<close> (which drops the
  offset), \<open>hour\<close> and \<open>minute\<close> only.
\<close>

record date =
  year :: nat
  month :: nat
  day :: nat

record time =
  hour :: nat
  minute :: nat
  second :: nat
  microsecond :: nat

record datetime =
  dt_date :: date
  dt_time :: time

definition is_leap :: "nat \<Rightarrow> bool" where
  "is_leap y = (y mod 4 = 0 \<and> (y mod 100 \<noteq> 0 \<or> y mod 400 = 0))"

definition days_in_month :: "nat \<Rightarrow> nat \<Rightarrow> nat" where
  "days_in_month y m =
     (if m = 2 then (if is_leap y then 29 else 28)
      else if m = 4 \<or> m = 6 \<or> m = 9 \<or> m = 11 then 30
      else if 1 \<le> m \<and> m \<le> 12 then 31 else 0)"

definition valid_date :: "date \<Rightarrow> bool" where
  "valid_date d =
     (1 \<le> year d \<and> year d \<le> 9999 \<and> 1 \<le> month d \<and> month d \<le> 12 \<and>
      1 \<le> day d \<and> day d \<le> days_in_month (year d) (month d))"

definition date_le :: "date \<Rightarrow> date \<Rightarrow> bool" where
  "date_le a b =
     (year a < year b \<or> (year a = year b \<and>
        (month a < month b \<or> (month a = month b \<and> day a \<le> day b))))"

definition date_lt :: "date \<Rightarrow> date \<Rightarrow> bool" where
  "date_lt a b = (date_le a b \<and> a \<noteq> b)"

text \<open>\<open>date.min\<close> and \<open>date.max\<close>.\<close>

definition min_date :: date where
  "min_date = \<lparr>year = 1, month = 1, day = 1\<rparr>"

definition max_date :: date where
  "max_date = \<lparr>year = 9999, month = 12, day = 31\<rparr>"

text \<open>
  \<open>date(year, month, day)\<close> raises ValueError unless the three numbers name a valid date.
  The arguments are Python integers.
\<close>

definition mk_date :: "int \<Rightarrow> int \<Rightarrow> int \<Rightarrow> error + date" where
  "mk_date y m d =
     (if 1 \<le> y \<and> y \<le> 9999 \<and> 1 \<le> m \<and> m \<le> 12 \<and> 1 \<le> d \<and>
         d \<le> int (days_in_month (nat y) (nat m))
      then Inr \<lparr>year = nat y, month = nat m, day = nat d\<rparr> else Inl ValueError)"

text \<open>
  \<open>d.toordinal()\<close> as datetime.py computes it (days since 0001-01-01, counted from 1),
  and \<open>d.weekday()\<close>, which is \<open>(toordinal() + 6) % 7\<close>: 0 is Monday, 6 is Sunday.
\<close>

definition days_before_year :: "nat \<Rightarrow> int" where
  "days_before_year y =
     (let p = int y - 1 in p * 365 + p div 4 - p div 100 + p div 400)"

definition days_before_month :: "nat \<Rightarrow> nat \<Rightarrow> int" where
  "days_before_month y m =
     int ([0, 0, 31, 59, 90, 120, 151, 181, 212, 243, 273, 304, 334] ! (if m \<le> 12 then m else 0))
     + (if m > 2 \<and> is_leap y then 1 else 0)"

definition toordinal :: "date \<Rightarrow> int" where
  "toordinal d = days_before_year (year d) + days_before_month (year d) (month d) + int (day d)"

definition weekday :: "date \<Rightarrow> nat" where
  "weekday d = nat ((toordinal d + 6) mod 7)"

text \<open>
  The day after and the day before in the calendar, and \<open>d + timedelta(days=1)\<close>,
  \<open>d - timedelta(days=1)\<close>: Python raises OverflowError when the result would leave
  the years 1..9999, that is after 9999-12-31 and before 0001-01-01.
\<close>

definition succ_day :: "date \<Rightarrow> date" where
  "succ_day d =
     (if day d < days_in_month (year d) (month d) then d\<lparr>day := day d + 1\<rparr>
      else if month d < 12 then \<lparr>year = year d, month = month d + 1, day = 1\<rparr>
      else \<lparr>year = year d + 1, month = 1, day = 1\<rparr>)"

definition pred_day :: "date \<Rightarrow> date" where
  "pred_day d =
     (if 1 < day d then d\<lparr>day := day d - 1\<rparr>
      else if 1 < month d
        then \<lparr>year = year d, month = month d - 1, day = days_in_month (year d) (month d - 1)\<rparr>
      else \<lparr>year = year d - 1, month = 12, day = 31\<rparr>)"

definition next_day :: "date \<Rightarrow> error + date" where
  "next_day d = (let n = succ_day d in if 9999 < year n then Inl OverflowError else Inr n)"

definition prev_day :: "date \<Rightarrow> error + date" where
  "prev_day d =
     (if year d \<le> 1 \<and> month d \<le> 1 \<and> day d \<le> 1 then Inl OverflowError
      else Inr (pred_day d))"

subsection \<open>Printing: \<open>str(date)\<close> and \<open>datetime.isoformat()\<close>\<close>

definition digit_char :: "nat \<Rightarrow> char" where
  "digit_char n = char_of (48 + n)"

fun dec :: "nat \<Rightarrow> string" where
  "dec n = (if n < 10 then [digit_char n] else dec (n div 10) @ [digit_char (n mod 10)])"

declare dec.simps [simp del]

text \<open>The format \<open>%0wd\<close>: decimal digits, padded with zeros on the left to width w.\<close>

definition zpad :: "nat \<Rightarrow> nat \<Rightarrow> string" where
  "zpad w n = replicate (w - length (dec n)) (CHR ''0'') @ dec n"

definition str_date :: "date \<Rightarrow> string" where
  "str_date d = zpad 4 (year d) @ ''-'' @ zpad 2 (month d) @ ''-'' @ zpad 2 (day d)"

text \<open>The time of day as \<open>isoformat()\<close> prints it: the microseconds appear when not zero.\<close>

definition str_time :: "time \<Rightarrow> string" where
  "str_time t =
     zpad 2 (hour t) @ '':'' @ zpad 2 (minute t) @ '':'' @ zpad 2 (second t) @
     (if microsecond t = 0 then [] else ''.'' @ zpad 6 (microsecond t))"

definition isoformat :: "datetime \<Rightarrow> string" where
  "isoformat dt = str_date (dt_date dt) @ ''T'' @ str_time (dt_time dt)"

definition combine :: "date \<Rightarrow> time \<Rightarrow> datetime" where
  "combine d t = \<lparr>dt_date = d, dt_time = t\<rparr>"

subsection \<open>The two library functions that read stored text\<close>

text \<open>
  The code hands the stored \<open>start_time\<close> text to \<open>datetime.fromisoformat\<close> (Python) and
  to \<open>DATE()\<close> (SQLite). Which texts these read depends on the versions of the two
  libraries, and for a timestamp with a UTC offset \<open>DATE()\<close> answers with the UTC day. The
  model takes the two functions as they are, as a parameter: \<open>fromisoformat\<close> is \<open>None\<close>
  where Python raises, \<open>sqlite_DATE\<close> is \<open>None\<close> where SQLite answers NULL. The theorems
  hold for every such pair of functions.
\<close>

record lib =
  fromisoformat :: "string \<Rightarrow> datetime option"
  sqlite_DATE :: "string \<Rightarrow> string option"

section \<open>The schedule queries (database\_manager.py)\<close>

text \<open>
  A result tuple of the full queries:
  \<open>(id, title, start_time, source, completed, event_id, is_recurring, repeat_days)\<close>.
\<close>

type_synonym event =
  "int \<times> string \<times> string option \<times> string \<times> int \<times> string option \<times> int option \<times> string option"

definition select_event :: "row \<Rightarrow> event" where
  "select_event r =
     (c_id r, c_title r, c_start_time r, c_source r, c_completed r, c_event_id r,
      c_is_recurring r, c_repeat_days r)"

definition ev_id :: "event \<Rightarrow> int" where
  "ev_id e = fst e"

definition ev_title :: "event \<Rightarrow> string" where
  "ev_title e = fst (snd e)"

definition ev_start :: "event \<Rightarrow> string option" where
  "ev_start e = fst (snd (snd e))"

definition ev_repeat_days :: "event \<Rightarrow> string option" where
  "ev_repeat_days e = snd (snd (snd (snd (snd (snd (snd e))))))"

definition set_start :: "event \<Rightarrow> string \<Rightarrow> event" where
  "set_start e s = (fst e, fst (snd e), Some s, snd (snd (snd e)))"

text \<open>The sort key \<open>x[2] if x[2] else ""\<close>; the same text orders \<open>ORDER BY start_time\<close>.\<close>

definition text_key :: "string option \<Rightarrow> string" where
  "text_key s = (case s of None \<Rightarrow> [] | Some x \<Rightarrow> x)"

text \<open>
  The WHERE clauses. A comparison with NULL is not true in SQL, so a row whose
  \<open>DATE(start_time)\<close> is NULL fails every date test. The bounds are the texts
  \<open>str(start_date)\<close> and \<open>str(end_date)\<close>, and SQLite compares texts byte by byte.
\<close>

definition not_recurring :: "row \<Rightarrow> bool" where
  "not_recurring r = (c_is_recurring r = Some 0 \<or> c_is_recurring r = None)"

definition one_shot_between :: "lib \<Rightarrow> string \<Rightarrow> string \<Rightarrow> row \<Rightarrow> bool" where
  "one_shot_between L lo hi r =
     (case c_start_time r of None \<Rightarrow> False
      | Some st \<Rightarrow>
         (case sqlite_DATE L st of None \<Rightarrow> False | Some ds \<Rightarrow> lo \<le> ds \<and> ds \<le> hi)
         \<and> c_completed r = 0 \<and> not_recurring r)"

definition one_shot_before :: "lib \<Rightarrow> string \<Rightarrow> string \<Rightarrow> row \<Rightarrow> bool" where
  "one_shot_before L lo hi r =
     (case c_start_time r of None \<Rightarrow> False
      | Some st \<Rightarrow>
         (case sqlite_DATE L st of None \<Rightarrow> False | Some ds \<Rightarrow> lo \<le> ds \<and> ds < hi)
         \<and> c_completed r = 0 \<and> not_recurring r)"

definition one_shot_on :: "lib \<Rightarrow> string \<Rightarrow> row \<Rightarrow> bool" where
  "one_shot_on L day_str r =
     (case c_start_time r of None \<Rightarrow> False
      | Some st \<Rightarrow>
         (case sqlite_DATE L st of None \<Rightarrow> False | Some ds \<Rightarrow> ds = day_str)
         \<and> c_completed r = 0 \<and> not_recurring r)"

definition is_recurring_row :: "row \<Rightarrow> bool" where
  "is_recurring_row r =
     (c_start_time r \<noteq> None \<and> c_is_recurring r = Some 1 \<and> c_repeat_days r \<noteq> None \<and>
      c_completed r = 0)"

definition order_by_start_time :: "row list \<Rightarrow> row list" where
  "order_by_start_time rs = sort_key (\<lambda>r. text_key (c_start_time r)) rs"

definition recurring_events :: "db \<Rightarrow> event list" where
  "recurring_events d = map select_event (filter is_recurring_row (tasks d))"

text \<open>\<open>s.split(',')\<close>, and the test \<open>str(weekday) in repeat_days_str.split(',')\<close>.\<close>

fun split_acc :: "char \<Rightarrow> string \<Rightarrow> string \<Rightarrow> string list" where
  "split_acc sep cur [] = [rev cur]"
| "split_acc sep cur (c # cs) =
     (if c = sep then rev cur # split_acc sep [] cs else split_acc sep (c # cur) cs)"

definition split :: "string \<Rightarrow> char \<Rightarrow> string list" where
  "split s sep = split_acc sep [] s"

definition repeats_on :: "nat \<Rightarrow> string option \<Rightarrow> bool" where
  "repeats_on wd rd =
     (case rd of None \<Rightarrow> False
      | Some s \<Rightarrow> s \<noteq> [] \<and> dec wd \<in> set (split s CHR '',''))"

text \<open>
  The body of the loop over \<open>recurring_events\<close> for one day: an instance is appended
  when the day's weekday is listed and the stored timestamp parses; when
  \<open>fromisoformat\<close> raises, the \<open>except\<close> branch passes.
\<close>

definition instance_on :: "lib \<Rightarrow> date \<Rightarrow> event \<Rightarrow> event list" where
  "instance_on L current_date e =
     (if repeats_on (weekday current_date) (ev_repeat_days e) then
        (case ev_start e of None \<Rightarrow> []
         | Some st \<Rightarrow>
            (case fromisoformat L st of None \<Rightarrow> []
             | Some original_dt \<Rightarrow>
                 [set_start e (isoformat (combine current_date (dt_time original_dt)))]))
      else [])"

fun add_instances :: "lib \<Rightarrow> date \<Rightarrow> event list \<Rightarrow> event list \<Rightarrow> event list" where
  "add_instances L current_date [] events = events"
| "add_instances L current_date (e # rest) events =
     add_instances L current_date rest (events @ instance_on L current_date e)"

text \<open>
  \<open>while current_date <= end_date\<close> (range) and \<open>while current_date < last_day\<close> (month).
  The increment \<open>current_date += timedelta(days=1)\<close> stands outside the \<open>try\<close>: when it
  raises, the query raises and returns nothing.
\<close>

function range_loop ::
  "lib \<Rightarrow> event list \<Rightarrow> date \<Rightarrow> date \<Rightarrow> event list \<Rightarrow> error + event list" where
  "range_loop L recurring current_date end_date events =
     (if date_le current_date end_date
      then (case next_day current_date of
              Inl err \<Rightarrow> Inl err
            | Inr tomorrow \<Rightarrow>
                range_loop L recurring tomorrow end_date
                  (add_instances L current_date recurring events))
      else Inr events)"
  by pat_completeness auto
termination
  by (relation "measures [\<lambda>(L, r, c, e, ev). year e + 1 - year c,
                          \<lambda>(L, r, c, e, ev). 12 - month c,
                          \<lambda>(L, r, c, e, ev). 31 - day c]")
     (auto simp: date_le_def next_day_def succ_day_def days_in_month_def Let_def
           split: if_splits)

declare range_loop.simps [simp del]

function month_loop ::
  "lib \<Rightarrow> event list \<Rightarrow> date \<Rightarrow> date \<Rightarrow> event list \<Rightarrow> error + event list" where
  "month_loop L recurring current_date last_day events =
     (if date_lt current_date last_day
      then (case next_day current_date of
              Inl err \<Rightarrow> Inl err
            | Inr tomorrow \<Rightarrow>
                month_loop L recurring tomorrow last_day
                  (add_instances L current_date recurring events))
      else Inr events)"
  by pat_completeness auto
termination
  by (relation "measures [\<lambda>(L, r, c, e, ev). year e + 1 - year c,
                          \<lambda>(L, r, c, e, ev). 12 - month c,
                          \<lambda>(L, r, c, e, ev). 31 - day c]")
     (auto simp: date_lt_def date_le_def next_day_def succ_day_def days_in_month_def Let_def
           split: if_splits)

declare month_loop.simps [simp del]

definition sort_events :: "event list \<Rightarrow> event list" where
  "sort_events events = sort_key (\<lambda>x. text_key (ev_start x)) events"

definition get_schedule_by_date_range :: "lib \<Rightarrow> db \<Rightarrow> date \<Rightarrow> date \<Rightarrow> error + event list" where
  "get_schedule_by_date_range L d start_date end_date =
     (let events = map select_event (order_by_start_time
                     (filter (one_shot_between L (str_date start_date) (str_date end_date))
                        (tasks d)))
      in case range_loop L (recurring_events d) start_date end_date events of
           Inl err \<Rightarrow> Inl err
         | Inr events' \<Rightarrow> Inr (sort_events events'))"

definition get_schedule_by_month :: "lib \<Rightarrow> db \<Rightarrow> int \<Rightarrow> int \<Rightarrow> error + event list" where
  "get_schedule_by_month L d y m =
     (case mk_date y m 1 of Inl err \<Rightarrow> Inl err
      | Inr first_day \<Rightarrow>
         (case (if m = 12 then mk_date (y + 1) 1 1 else mk_date y (m + 1) 1) of
            Inl err \<Rightarrow> Inl err
          | Inr last_day \<Rightarrow>
             (let events = map select_event (order_by_start_time
                             (filter (one_shot_before L (str_date first_day) (str_date last_day))
                                (tasks d)))
              in case month_loop L (recurring_events d) first_day last_day events of
                   Inl err \<Rightarrow> Inl err
                 | Inr events' \<Rightarrow> Inr (sort_events events'))))"

text \<open>\<open>events[:limit]\<close> for an integer limit: a negative limit counts from the end.\<close>

definition slice_to :: "int \<Rightarrow> 'a list \<Rightarrow> 'a list" where
  "slice_to limit xs =
     (if 0 \<le> limit then take (nat limit) xs else take (nat (int (length xs) + limit)) xs)"

text \<open>\<open>get_today_schedule_full\<close>; \<open>today\<close> is \<open>date.today()\<close>. No date is incremented here.\<close>

definition get_today_schedule_full :: "lib \<Rightarrow> db \<Rightarrow> date \<Rightarrow> int \<Rightarrow> event list" where
  "get_today_schedule_full L d today limit =
     (let events = map select_event (order_by_start_time
                     (filter (one_shot_on L (str_date today)) (tasks d)))
      in slice_to limit (sort_events (add_instances L today (recurring_events d) events)))"

text \<open>
  \<open>get_today_schedule\<close> selects \<open>(title, start_time)\<close> for the one-shot rows and
  \<open>(title, start_time, repeat_days)\<close> for the recurring ones, and returns pairs.
\<close>

definition pair_instance_on :: "lib \<Rightarrow> date \<Rightarrow> row \<Rightarrow> (string \<times> string option) list" where
  "pair_instance_on L today r =
     (if repeats_on (weekday today) (c_repeat_days r) then
        (case c_start_time r of None \<Rightarrow> []
         | Some st \<Rightarrow>
            (case fromisoformat L st of None \<Rightarrow> []
             | Some original_dt \<Rightarrow>
                 [(c_title r, Some (isoformat (combine today (dt_time original_dt))))]))
      else [])"

fun add_pair_instances ::
  "lib \<Rightarrow> date \<Rightarrow> row list \<Rightarrow> (string \<times> string option) list \<Rightarrow> (string \<times> string option) list" where
  "add_pair_instances L today [] events = events"
| "add_pair_instances L today (r # rest) events =
     add_pair_instances L today rest (events @ pair_instance_on L today r)"

definition get_today_schedule :: "lib \<Rightarrow> db \<Rightarrow> date \<Rightarrow> int \<Rightarrow> (string \<times> string option) list" where
  "get_today_schedule L d today limit =
     (let events = map (\<lambda>r. (c_title r, c_start_time r)) (order_by_start_time
                     (filter (one_shot_on L (str_date today)) (tasks d)))
      in slice_to limit
           (sort_key (\<lambda>x. text_key (snd x))
              (add_pair_instances L today (filter is_recurring_row (tasks d)) events)))"

section \<open>Conflict checks (event\_manager.py, main.py)\<close>

text \<open>
  \<open>create_event_from_popup\<close> walks the occurrences of the candidate's day and shows the
  error popup at the first one whose parsed start has the candidate's date, hour and
  minute. \<open>update_event_from_popup\<close> does the same but skips the occurrences whose id
  is the id of the event being edited. An occurrence with an empty or unparseable start
  is passed over.
\<close>

definition same_minute :: "datetime \<Rightarrow> datetime \<Rightarrow> bool" where
  "same_minute existing_dt dt =
     (dt_date existing_dt = dt_date dt \<and> hour (dt_time existing_dt) = hour (dt_time dt) \<and>
      minute (dt_time existing_dt) = minute (dt_time dt))"

definition clashes :: "lib \<Rightarrow> event \<Rightarrow> datetime \<Rightarrow> bool" where
  "clashes L event dt =
     (case ev_start event of None \<Rightarrow> False
      | Some s \<Rightarrow>
         s \<noteq> [] \<and> (case fromisoformat L s of None \<Rightarrow> False
                    | Some existing_dt \<Rightarrow> same_minute existing_dt dt))"

fun has_conflict :: "lib \<Rightarrow> event list \<Rightarrow> datetime \<Rightarrow> bool" where
  "has_conflict L [] dt = False"
| "has_conflict L (event # rest) dt =
     (if clashes L event dt then True else has_conflict L rest dt)"

fun has_conflict_excluding :: "lib \<Rightarrow> int \<Rightarrow> event list \<Rightarrow> datetime \<Rightarrow> bool" where
  "has_conflict_excluding L edited_id [] dt = False"
| "has_conflict_excluding L edited_id (event # rest) dt =
     (if ev_id event = edited_id then has_conflict_excluding L edited_id rest dt
      else if clashes L event dt then True
      else has_conflict_excluding L edited_id rest dt)"

definition conflict_popup :: string where
  "conflict_popup = ''An event already exists at this date and time. Please choose a different time.''"

text \<open>\<open>str(e)\<close> for the exceptions of the model.\<close>

definition error_text :: "error \<Rightarrow> string" where
  "error_text err =
     (case err of OverflowError \<Rightarrow> ''date value out of range''
      | ValueError \<Rightarrow> ''Schedule items must have a start_time'')"

text \<open>
  The outcome of the check in the two popups: \<open>Some\<close> message when an error popup is
  shown and the method returns (the conflict popup, or the popup of the \<open>except\<close> branch
  when the range query raised), \<open>None\<close> when the event goes on to be stored.
\<close>

definition create_event_check :: "lib \<Rightarrow> db \<Rightarrow> datetime \<Rightarrow> string option" where
  "create_event_check L d dt =
     (let event_date = dt_date dt in
      case get_schedule_by_date_range L d event_date event_date of
        Inl err \<Rightarrow> Some (''Error creating event: '' @ error_text err)
      | Inr existing_events \<Rightarrow>
          if has_conflict L existing_events dt then Some conflict_popup else None)"

definition update_event_check :: "lib \<Rightarrow> db \<Rightarrow> int \<Rightarrow> datetime \<Rightarrow> string option" where
  "update_event_check L d edited_id dt =
     (let event_date = dt_date dt in
      case get_schedule_by_date_range L d event_date event_date of
        Inl err \<Rightarrow> Some (''Error updating event: '' @ error_text err)
      | Inr existing_events \<Rightarrow>
          if has_conflict_excluding L edited_id existing_events dt then Some conflict_popup
          else None)"

subsection \<open>The voice path: \<open>add_event_voice\<close>\<close>

text \<open>
  \<open>event_times\<close> is a dictionary from \<open>(hour, minute)\<close> to the title of the first
  occurrence at that minute; it is kept as an association list in insertion order, with a
  key entered only when absent.
\<close>

definition time_key :: "datetime \<Rightarrow> nat \<times> nat" where
  "time_key x = (hour (dt_time x), minute (dt_time x))"

fun pre_parse ::
  "lib \<Rightarrow> date \<Rightarrow> event list \<Rightarrow> ((nat \<times> nat) \<times> string) list \<Rightarrow> ((nat \<times> nat) \<times> string) list" where
  "pre_parse L event_date [] event_times = event_times"
| "pre_parse L event_date (event # rest) event_times =
     pre_parse L event_date rest
       (case ev_start event of None \<Rightarrow> event_times
        | Some s \<Rightarrow>
           if s = [] then event_times
           else (case fromisoformat L s of None \<Rightarrow> event_times
                 | Some existing_dt \<Rightarrow>
                    if dt_date existing_dt = event_date
                    then (if map_of event_times (time_key existing_dt) = None
                          then event_times @ [(time_key existing_dt, ev_title event)]
                          else event_times)
                    else event_times))"

text \<open>
  \<open>dt + timedelta(minutes=k)\<close>: the minute of the day moves by k and the date by the
  days carried over, with OverflowError when the date leaves the calendar; seconds and
  microseconds stay.
\<close>

fun days_forward :: "nat \<Rightarrow> date \<Rightarrow> error + date" where
  "days_forward 0 d = Inr d"
| "days_forward (Suc n) d = (case next_day d of Inl err \<Rightarrow> Inl err | Inr x \<Rightarrow> days_forward n x)"

fun days_backward :: "nat \<Rightarrow> date \<Rightarrow> error + date" where
  "days_backward 0 d = Inr d"
| "days_backward (Suc n) d = (case prev_day d of Inl err \<Rightarrow> Inl err | Inr x \<Rightarrow> days_backward n x)"

definition shift_days :: "date \<Rightarrow> int \<Rightarrow> error + date" where
  "shift_days d k = (if 0 \<le> k then days_forward (nat k) d else days_backward (nat (- k)) d)"

definition add_minutes :: "datetime \<Rightarrow> int \<Rightarrow> error + datetime" where
  "add_minutes dt k =
     (let total = int (hour (dt_time dt)) * 60 + int (minute (dt_time dt)) + k;
          m = total mod 1440
      in case shift_days (dt_date dt) (total div 1440) of
           Inl err \<Rightarrow> Inl err
         | Inr d \<Rightarrow>
             Inr \<lparr>dt_date = d,
                  dt_time = (dt_time dt)\<lparr>hour := nat (m div 60), minute := nat (m mod 60)\<rparr>\<rparr>)"

text \<open>The 12-hour clock string: \<open>f"{hour_12}{minute_str}{ampm}"\<close>.\<close>

definition format_12h :: "datetime \<Rightarrow> string" where
  "format_12h alt_time =
     (let h = hour (dt_time alt_time);
          hour_12 = (if h mod 12 = 0 then 12 else h mod 12);
          ampm = (if h < 12 then ''am'' else ''pm'');
          minute_str = (if minute (dt_time alt_time) > 0
                        then '':'' @ zpad 2 (minute (dt_time alt_time)) else [])
      in dec hour_12 @ minute_str @ ampm)"

text \<open>
  The loop over the offsets, with its \<open>break\<close> once three suggestions are collected.
  An exception of the date arithmetic leaves the loop.
\<close>

fun suggest ::
  "datetime \<Rightarrow> ((nat \<times> nat) \<times> string) list \<Rightarrow> int list \<Rightarrow> string list \<Rightarrow> error + string list" where
  "suggest dt_obj event_times [] suggestions = Inr suggestions"
| "suggest dt_obj event_times (offset_minutes # rest) suggestions =
     (case add_minutes dt_obj offset_minutes of
        Inl err \<Rightarrow> Inl err
      | Inr alt_time \<Rightarrow>
          if map_of event_times (time_key alt_time) = None
          then (let suggestions' = suggestions @ [format_12h alt_time]
                in if length suggestions' \<ge> 3 then Inr suggestions'
                   else suggest dt_obj event_times rest suggestions')
          else suggest dt_obj event_times rest suggestions)"

definition offsets :: "int list" where
  "offsets = [-60, -30, 30, 60]"

text \<open>
  The conflict found for a candidate among the occurrences of its day: the title of the
  conflicting occurrence and the suggested times, or \<open>None\<close> when the candidate is
  accepted.
\<close>

definition find_conflict ::
  "lib \<Rightarrow> event list \<Rightarrow> datetime \<Rightarrow> error + (string \<times> string list) option" where
  "find_conflict L existing_events dt_obj =
     (if existing_events = [] then Inr None
      else
        (let event_times = pre_parse L (dt_date dt_obj) existing_events []
         in case map_of event_times (time_key dt_obj) of
              None \<Rightarrow> Inr None
            | Some conflicting_title \<Rightarrow>
                (case suggest dt_obj event_times offsets [] of
                   Inl err \<Rightarrow> Inl err
                 | Inr suggestions \<Rightarrow> Inr (Some (conflicting_title, suggestions)))))"

fun join :: "string \<Rightarrow> string list \<Rightarrow> string" where
  "join sep [] = []"
| "join sep [x] = x"
| "join sep (x # y # rest) = x @ sep @ join sep (y # rest)"

definition conflict_message :: "string \<Rightarrow> string \<Rightarrow> string \<times> string list \<Rightarrow> string" where
  "conflict_message time_str date_display c =
     ''You already have '' @ [CHR 0x27] @ fst c @ [CHR 0x27] @ '' at '' @ time_str @ '' on '' @
     date_display @
     (if snd c \<noteq> [] then ''. How about '' @ join '', '' (snd c) @ '' instead?''
      else ''. Please choose a different time.'')"

text \<open>
  \<open>add_event_voice\<close> from the point where \<open>start_time\<close> is known: the conflict found,
  if any; with none the event is stored. The whole check stands in a \<open>try\<close> whose
  \<open>except Exception\<close> branch prints and leaves no conflict, so an exception of the
  parser, of the range query or of the date arithmetic ends as \<open>None\<close>. \<open>time_str\<close> and
  \<open>date_display\<close> are the words of the request, used in the message only.
\<close>

definition voice_check :: "lib \<Rightarrow> db \<Rightarrow> string option \<Rightarrow> (string \<times> string list) option" where
  "voice_check L d start =
     (case start of None \<Rightarrow> None
      | Some s \<Rightarrow>
         if s = [] then None
         else (case fromisoformat L s of None \<Rightarrow> None
               | Some dt_obj \<Rightarrow>
                  (case get_schedule_by_date_range L d (dt_date dt_obj) (dt_date dt_obj) of
                     Inl err \<Rightarrow> None
                   | Inr existing_events \<Rightarrow>
                      (case find_conflict L existing_events dt_obj of
                         Inl err \<Rightarrow> None
                       | Inr c \<Rightarrow> c))))"

definition add_event_voice ::
  "lib \<Rightarrow> db \<Rightarrow> string \<Rightarrow> string option \<Rightarrow> string \<Rightarrow> string \<Rightarrow> string option \<times> db" where
  "add_event_voice L d title' start time_str date_display =
     (case voice_check L d start of
        Some c \<Rightarrow> (Some (conflict_message time_str date_display c), d)
      | None \<Rightarrow>
          (case add_schedule_item d
                  \<lparr>title = title', start_time = start, completed = False, source = ''local'',
                   event_id = None, is_recurring = False, repeat_days = None,
                   priority = ''medium''\<rparr> of
             Inl err \<Rightarrow> (None, d)
           | Inr d' \<Rightarrow> (None, d')))"

section \<open>Notions used to state the properties\<close>



text \<open>The days from one day to another in the calendar, in order.\<close>

function days_from_to :: "date \<Rightarrow> date \<Rightarrow> date list" where
  "days_from_to current_date end_date =
     (if date_le current_date end_date
      then current_date # days_from_to (succ_day current_date) end_date else [])"
  by pat_completeness auto
termination
  by (relation "measures [\<lambda>(c, e). year e + 1 - year c, \<lambda>(c, e). 12 - month c,
                          \<lambda>(c, e). 31 - day c]")
     (auto simp: date_le_def succ_day_def days_in_month_def split: if_splits)

declare days_from_to.simps [simp del]

text \<open>A day of the calendar, with no bound on the year.\<close>

definition cal_date :: "date \<Rightarrow> bool" where
  "cal_date d =
     (1 \<le> month d \<and> month d \<le> 12 \<and> 1 \<le> day d \<and> day d \<le> days_in_month (year d) (month d))"

text \<open>
  A list of sort keys is chronological when it ascends and every empty key (a missing
  start time) stands before every non-empty one.
\<close>

definition chronological :: "string list \<Rightarrow> bool" where
  "chronological ks =
     (sorted ks \<and> (\<forall>i < length ks. \<forall>j < length ks. ks ! i = [] \<and> ks ! j \<noteq> [] \<longrightarrow> i < j))"

text \<open>The pair \<open>(title, start_time)\<close> that \<open>get_today_schedule\<close> returns for an occurrence.\<close>

definition title_start :: "event \<Rightarrow> string \<times> string option" where
  "title_start x = (ev_title x, ev_start x)"



text \<open>The two parts of the list the range query sorts, and the sorted list of one day.\<close>

definition one_shots_between :: "lib \<Rightarrow> db \<Rightarrow> date \<Rightarrow> date \<Rightarrow> event list" where
  "one_shots_between L d s e =
     map select_event (order_by_start_time
       (filter (one_shot_between L (str_date s) (str_date e)) (tasks d)))"

definition instances_between :: "lib \<Rightarrow> db \<Rightarrow> date \<Rightarrow> date \<Rightarrow> event list" where
  "instances_between L d s e =
     concat (map (\<lambda>dy. concat (map (instance_on L dy) (recurring_events d))) (days_from_to s e))"

definition day_schedule :: "lib \<Rightarrow> db \<Rightarrow> date \<Rightarrow> event list" where
  "day_schedule L d today =
     sort_events (one_shots_between L d today today @
                  concat (map (instance_on L today) (recurring_events d)))"



subsection \<open>Example data\<close>

text \<open>
  The example of the specification: a stand-up at 09:00 repeating on Monday, Wednesday
  and Friday, anchored on Monday 2024-01-01, beside a one-shot lunch on Wednesday
  2024-01-03 at 08:30 and a one-shot review that day at 14:00. A recurring row whose start
  time is no timestamp, a row synced from Google with a UTC offset, and a one-shot row on
  the last day of the calendar (a Friday).
\<close>

definition standup :: row where
  "standup = \<lparr>c_id = 1, c_title = ''Standup'', c_start_time = Some ''2024-01-01T09:00:00'',
     c_completed = 0, c_source = ''local'', c_event_id = None, c_is_recurring = Some 1,
     c_repeat_days = Some ''0,2,4'', c_priority = ''medium''\<rparr>"

definition lunch :: row where
  "lunch = \<lparr>c_id = 2, c_title = ''Lunch'', c_start_time = Some ''2024-01-03T08:30:00'',
     c_completed = 0, c_source = ''local'', c_event_id = None, c_is_recurring = Some 0,
     c_repeat_days = None, c_priority = ''medium''\<rparr>"

definition review :: row where
  "review = \<lparr>c_id = 3, c_title = ''Review'', c_start_time = Some ''2024-01-03T14:00:00'',
     c_completed = 0, c_source = ''local'', c_event_id = None, c_is_recurring = Some 0,
     c_repeat_days = None, c_priority = ''medium''\<rparr>"





definition busy_db :: db where
  "busy_db = \<lparr>tasks = [standup, review, lunch], seq = 3\<rparr>"




definition jan :: "nat \<Rightarrow> date" where
  "jan n = \<lparr>year = 2024, month = 1, day = n\<rparr>"

definition at :: "date \<Rightarrow> nat \<Rightarrow> nat \<Rightarrow> datetime" where
  "at d h m = \<lparr>dt_date = d, dt_time = \<lparr>hour = h, minute = m, second = 0, microsecond = 0\<rparr>\<rparr>"

text \<open>
  What the two library functions answer on the texts of the examples: Python reads the
  timestamps (dropping nothing but the offset, which the model does not keep), SQLite
  gives the day, which for the timestamp with the offset \<open>+08:00\<close> is the UTC day, the
  day before; neither reads \<open>next week\<close>. On any other text the example answers
  \<open>None\<close>; the examples hand it no other text.
\<close>

definition example_lib :: lib where
  "example_lib =
     \<lparr>fromisoformat = map_of
        [(''2024-01-01T09:00:00'', at (jan 1) 9 0),
         (''2024-01-03T08:30:00'', at (jan 3) 8 30),
         (''2024-01-03T09:00:00'', at (jan 3) 9 0),
         (''2024-01-03T14:00:00'', at (jan 3) 14 0),
         (''2024-01-03T14:01:00'', at (jan 3) 14 1),
         (''2024-01-03T02:30:00+08:00'', at (jan 3) 2 30),
         (''9999-12-31T08:30:00'', at max_date 8 30),
         (''9999-12-31T09:00:00'', at max_date 9 0),
         (''0001-01-01T00:30:00'', at min_date 0 30)],
      sqlite_DATE = map_of
        [(''2024-01-01T09:00:00'', ''2024-01-01''),
         (''2024-01-03T08:30:00'', ''2024-01-03''),
         (''2024-01-03T09:00:00'', ''2024-01-03''),
         (''2024-01-03T14:00:00'', ''2024-01-03''),
         (''2024-01-03T14:01:00'', ''2024-01-03''),
         (''2024-01-03T02:30:00+08:00'', ''2024-01-02''),
         (''9999-12-31T08:30:00'', ''9999-12-31''),
         (''9999-12-31T09:00:00'', ''9999-12-31''),
         (''0001-01-01T00:30:00'', ''0001-01-01'')]\<rparr>"

section \<open>Lemmas\<close>







lemma digit_char_less: "a < 10 \<Longrightarrow> b < 10 \<Longrightarrow> (digit_char a < digit_char b) = (a < b)"
  by (simp add: digit_char_def less_char_def)

lemma digit_char_eq: "a < 10 \<Longrightarrow> b < 10 \<Longrightarrow> (digit_char a = digit_char b) = (a = b)"
  using digit_char_less [of a b] digit_char_less [of b a] by (metis less_irrefl nat_neq_iff)











lemma date_le_antisym: "date_le a b \<Longrightarrow> date_le b a \<Longrightarrow> a = b"
  by (cases a, cases b) (auto simp: date_le_def)

lemma date_le_refl [simp]: "date_le a a"
  by (simp add: date_le_def)





lemma add_instances_append:
  "add_instances L cur rec events = events @ concat (map (instance_on L cur) rec)"
  by (induction rec arbitrary: events) simp_all

lemma days_in_month_pos: "Suc 0 \<le> m \<Longrightarrow> m \<le> 12 \<Longrightarrow> Suc 0 \<le> days_in_month y m"
  by (simp add: days_in_month_def)

lemma cal_date_succ_day: "cal_date d \<Longrightarrow> cal_date (succ_day d)"
  by (auto simp: cal_date_def succ_day_def days_in_month_pos)

lemma cal_date_valid: "valid_date d \<Longrightarrow> cal_date d"
  by (simp add: valid_date_def cal_date_def)

lemma succ_day_gt: "date_le d (succ_day d) \<and> succ_day d \<noteq> d"
  by (cases d) (auto simp: date_le_def succ_day_def)

lemma succ_day_after: "\<not> date_le (succ_day d) d"
  using succ_day_gt [of d] date_le_antisym by blast

lemma next_day_in_range:
  assumes "cal_date c" "date_le c e" "valid_date e" "e \<noteq> max_date"
  shows "next_day c = Inr (succ_day c)"
proof -
  have "year (succ_day c) \<le> 9999"
  proof (rule ccontr)
    assume "\<not> year (succ_day c) \<le> 9999"
    then have "year c = 9999 \<and> month c = 12 \<and> day c = 31 \<and> year e = 9999"
      using assms(1,2,3)
      by (auto simp: succ_day_def cal_date_def date_le_def valid_date_def days_in_month_def
          split: if_splits)
    then have "e = max_date"
      using assms(2,3)
      by (cases e) (auto simp: date_le_def valid_date_def days_in_month_def max_date_def
          split: if_splits)
    then show False using assms(4) by simp
  qed
  then show ?thesis by (simp add: next_day_def Let_def)
qed

lemma range_loop_eq:
  "cal_date c \<Longrightarrow> valid_date e \<Longrightarrow> e \<noteq> max_date \<Longrightarrow>
   range_loop L rec c e events =
     Inr (events @ concat (map (\<lambda>d. concat (map (instance_on L d) rec)) (days_from_to c e)))"
proof (induction c e arbitrary: events rule: days_from_to.induct)
  case (1 c e)
  show ?case
  proof (cases "date_le c e")
    case True
    have n: "next_day c = Inr (succ_day c)"
      using next_day_in_range [OF "1.prems"(1) True "1.prems"(2,3)] .
    have c': "cal_date (succ_day c)" using "1.prems"(1) by (rule cal_date_succ_day)
    show ?thesis
      using "1.IH" [OF True c' "1.prems"(2,3)] True n
      by (simp add: range_loop.simps [of L rec c e] days_from_to.simps [of c e]
          add_instances_append)
  next
    case False
    then show ?thesis
      by (simp add: range_loop.simps [of L rec c e] days_from_to.simps [of c e])
  qed
qed







lemma sorted_chronological: "sorted ks \<Longrightarrow> chronological (ks :: string list)"
proof -
  assume s: "sorted ks"
  have "i < j" if "i < length ks" "j < length ks" "ks ! i = []" "ks ! j \<noteq> []" for i j
  proof (rule ccontr)
    assume "\<not> i < j"
    then have "j \<le> i" by simp
    then have "ks ! j \<le> ks ! i" using s that(1) by (simp add: sorted_nth_mono)
    then show False using that(3,4) by simp
  qed
  then show ?thesis using s by (simp add: chronological_def)
qed

lemma add_pair_instances_append:
  "add_pair_instances L cur rec events = events @ concat (map (pair_instance_on L cur) rec)"
  by (induction rec arbitrary: events) simp_all

lemma sorted_slice_to: "sorted (map f xs) \<Longrightarrow> sorted (map f (slice_to n xs))"
  by (simp add: slice_to_def take_map [symmetric] sorted_wrt_take del: take_map)

lemma sorted_sort_events: "sorted (map (\<lambda>x. text_key (ev_start x)) (sort_events xs))"
  by (simp add: sort_events_def)

lemma days_from_to_single: "days_from_to d d = [d]"
  using succ_day_after [of d]
  by (simp add: days_from_to.simps [of d d] days_from_to.simps [of "succ_day d" d])

lemma one_shot_on_between: "one_shot_on L s r = one_shot_between L s s r"
  by (auto simp: one_shot_on_def one_shot_between_def split: option.splits)

lemma today_full_day:
  "get_today_schedule_full L d today limit = slice_to limit (day_schedule L d today)"
  by (simp add: get_today_schedule_full_def day_schedule_def one_shots_between_def
      add_instances_append one_shot_on_between [abs_def])

lemma insort_key_map:
  "map f (insort_key (\<lambda>x. k (f x)) a xs) = insort_key k (f a) (map f xs)"
  by (induction xs) simp_all

lemma sort_key_map: "map f (sort_key (\<lambda>x. k (f x)) xs) = sort_key k (map f xs)"
  by (induction xs) (simp_all add: insort_key_map)

lemma pair_instance_on_eq: "pair_instance_on L today r = map title_start (instance_on L today (select_event r))"
  by (simp add: pair_instance_on_def instance_on_def title_start_def select_event_def ev_title_def
      ev_start_def ev_repeat_days_def set_start_def split: option.splits)

lemma slice_to_map: "slice_to n (map f xs) = map f (slice_to n xs)"
  by (simp add: slice_to_def take_map)

lemma today_pairs_day:
  "get_today_schedule L d today limit = map title_start (slice_to limit (day_schedule L d today))"
proof -
  have a: "(\<lambda>r. (c_title r, c_start_time r)) = (\<lambda>r. title_start (select_event r))"
    by (simp add: title_start_def select_event_def ev_title_def ev_start_def)
  have b: "concat (map (pair_instance_on L today) (filter is_recurring_row (tasks d)))
         = map title_start (concat (map (instance_on L today) (recurring_events d)))"
    by (simp add: recurring_events_def map_concat comp_def pair_instance_on_eq [abs_def])
  have c: "(\<lambda>x. text_key (ev_start x)) = (\<lambda>x. text_key (snd (title_start x)))"
    by (simp add: title_start_def)
  show ?thesis
    unfolding get_today_schedule_def day_schedule_def one_shots_between_def Let_def
      add_pair_instances_append sort_events_def slice_to_map [symmetric] b a
    by (simp add: c sort_key_map [of title_start "\<lambda>x. text_key (snd x)"]
        one_shot_on_between [abs_def] comp_def)
qed

lemma range_expansion:
  assumes "valid_date s" "valid_date e" "e \<noteq> max_date"
  shows "get_schedule_by_date_range L d s e
           = Inr (sort_events (one_shots_between L d s e @ instances_between L d s e))"
  by (simp add: get_schedule_by_date_range_def
      range_loop_eq [OF cal_date_valid [OF assms(1)] assms(2,3)]
      one_shots_between_def instances_between_def)

lemma range_single_day:
  assumes "valid_date dy" "dy \<noteq> max_date"
  shows "get_schedule_by_date_range L d dy dy = Inr (day_schedule L d dy)"
  by (simp add: range_expansion [OF assms(1,1,2)] day_schedule_def instances_between_def
      days_from_to_single)








lemma ev_id_select [simp]: "ev_id (select_event r) = c_id r"
  by (simp add: ev_id_def select_event_def)

lemma ev_id_set_start [simp]: "ev_id (set_start e s) = ev_id e"
  by (simp add: ev_id_def set_start_def)

lemma ev_start_set_start [simp]: "ev_start (set_start e s) = Some s"
  by (simp add: ev_start_def set_start_def)








lemma sort_events_small [simp]: "sort_events [] = []" "sort_events [x] = [x]"
  by (simp_all add: sort_events_def)






lemma sorted_month:
  "get_schedule_by_month L d y m = Inr out \<Longrightarrow> sorted (map (\<lambda>x. text_key (ev_start x)) out)"
  by (auto simp: get_schedule_by_month_def Let_def sorted_sort_events split: sum.splits)

lemma sorted_range:
  "get_schedule_by_date_range L d s e = Inr out \<Longrightarrow> sorted (map (\<lambda>x. text_key (ev_start x)) out)"
  by (auto simp: get_schedule_by_date_range_def Let_def sorted_sort_events split: sum.splits)

lemma sorted_day_schedule:
  "sorted (map (\<lambda>x. text_key (ev_start x)) (day_schedule L d today))"
  by (simp add: day_schedule_def sorted_sort_events)

lemma sorted_today_full:
  "sorted (map (\<lambda>x. text_key (ev_start x)) (get_today_schedule_full L d today limit))"
  by (simp add: today_full_day sorted_slice_to sorted_day_schedule)

lemma sorted_today:
  "sorted (map (\<lambda>x. text_key (snd x)) (get_today_schedule L d today limit))"
proof -
  have "map (\<lambda>x. text_key (snd x)) (get_today_schedule L d today limit)
        = map (\<lambda>x. text_key (ev_start x)) (slice_to limit (day_schedule L d today))"
    by (simp add: today_pairs_day title_start_def comp_def)
  then show ?thesis by (simp add: sorted_slice_to sorted_day_schedule)
qed

lemma days_from_to_empty: "\<not> date_le s e \<Longrightarrow> days_from_to s e = []"
  by (simp add: days_from_to.simps [of s e])














lemma month_loop_returns:
  "valid_date e \<Longrightarrow> cal_date c \<Longrightarrow> \<exists>out. month_loop L rec c e events = Inr out"
proof (induction L rec c e events rule: month_loop.induct)
  case (1 L rec c e events)
  show ?case
  proof (cases "date_lt c e")
    case False
    then show ?thesis by (simp add: month_loop.simps [of L rec c e])
  next
    case True
    have v: "valid_date e" by fact
    have le: "date_le c e" and ne: "c \<noteq> e" using True by (simp_all add: date_lt_def)
    have "year (succ_day c) \<le> 9999"
    proof (rule ccontr)
      assume "\<not> year (succ_day c) \<le> 9999"
      then have "year c = 9999 \<and> month c = 12 \<and> day c = 31 \<and> year e = 9999"
        using "1.prems"(2) le v
        by (auto simp: succ_day_def cal_date_def date_le_def valid_date_def days_in_month_def
            split: if_splits)
      then have "c = e"
        using le v
        by (cases e, cases c) (auto simp: date_le_def valid_date_def days_in_month_def
            split: if_splits)
      then show False using ne by simp
    qed
    then have n: "next_day c = Inr (succ_day c)" by (simp add: next_day_def Let_def)
    show ?thesis
      using "1.IH" [OF True n v cal_date_succ_day [OF "1.prems"(2)]] True n
      by (simp add: month_loop.simps [of L rec c e])
  qed
qed






lemma mk_date_valid: "mk_date y m dd = Inr x \<Longrightarrow> valid_date x"
  by (auto simp: mk_date_def valid_date_def split: if_splits)

lemma month_returns:
  assumes "1 \<le> y" "y \<le> 9999" "1 \<le> m" "m \<le> 12" "\<not> (y = 9999 \<and> m = 12)"
  shows "\<exists>out. get_schedule_by_month L d y m = Inr out"
proof -
  have p: "Suc 0 \<le> days_in_month (nat y) (nat m)"
    using assms(3,4) by (intro days_in_month_pos) simp_all
  obtain f where f: "mk_date y m 1 = Inr f"
    using assms(1-4) p by (simp add: mk_date_def)
  have q: "m \<noteq> 12 \<Longrightarrow> Suc 0 \<le> days_in_month (nat y) (nat (m + 1))"
    using assms(3,4) by (intro days_in_month_pos) simp_all
  obtain l where l: "(if m = 12 then mk_date (y + 1) 1 1 else mk_date y (m + 1) 1) = Inr l"
  proof (cases "m = 12")
    case True
    then have "y + 1 \<le> 9999" using assms(2,5) by simp
    then show ?thesis
      using that True assms(1) by (simp add: mk_date_def days_in_month_def)
  next
    case False
    then show ?thesis
      using that q assms(1-4) by (simp add: mk_date_def)
  qed
  have vl: "valid_date l" using l mk_date_valid by (auto split: if_splits)
  have cf: "cal_date f" using f mk_date_valid cal_date_valid by blast
  obtain out where "month_loop L (recurring_events d) f l
      (map select_event (order_by_start_time
         (filter (one_shot_before L (str_date f) (str_date l)) (tasks d)))) = Inr out"
    using month_loop_returns [OF vl cf] by blast
  then show ?thesis
    using f l by (simp add: get_schedule_by_month_def Let_def del: One_nat_def)
qed

section \<open>The range expansion\<close>







section \<open>Order and truncation\<close>

text \<open>
  C3. The list every expansion query returns (range, month, today with full tuples, today
  with pairs) is in ascending order of its sort key, the start-time text, and an entry
  with an empty key stands before every entry with a timestamp. The range query returns a
  list for every range of valid dates that ends before 9999-12-31, the month query for
  every month of the years 1 to 9999 but December 9999, the today queries always.
\<close>

theorem expansion_is_chronological:
  "(\<forall>out. get_schedule_by_date_range L d s e = Inr out \<longrightarrow>
      chronological (map (\<lambda>x. text_key (ev_start x)) out)) \<and>
   (valid_date s \<and> valid_date e \<and> e \<noteq> max_date \<longrightarrow>
      (\<exists>out. get_schedule_by_date_range L d s e = Inr out)) \<and>
   (\<forall>out. get_schedule_by_month L d y m = Inr out \<longrightarrow>
      chronological (map (\<lambda>x. text_key (ev_start x)) out)) \<and>
   (1 \<le> y \<and> y \<le> 9999 \<and> 1 \<le> m \<and> m \<le> 12 \<and> \<not> (y = 9999 \<and> m = 12) \<longrightarrow>
      (\<exists>out. get_schedule_by_month L d y m = Inr out)) \<and>
   chronological (map (\<lambda>x. text_key (ev_start x)) (get_today_schedule_full L d today limit)) \<and>
   chronological (map (\<lambda>x. text_key (snd x)) (get_today_schedule L d today limit))"
proof -
  have a: "\<forall>out. get_schedule_by_date_range L d s e = Inr out \<longrightarrow>
      chronological (map (\<lambda>x. text_key (ev_start x)) out)"
    using sorted_range by (blast intro: sorted_chronological)
  have b: "valid_date s \<and> valid_date e \<and> e \<noteq> max_date \<longrightarrow>
      (\<exists>out. get_schedule_by_date_range L d s e = Inr out)"
    using range_expansion by blast
  have c: "\<forall>out. get_schedule_by_month L d y m = Inr out \<longrightarrow>
      chronological (map (\<lambda>x. text_key (ev_start x)) out)"
    using sorted_month by (blast intro: sorted_chronological)
  have e: "1 \<le> y \<and> y \<le> 9999 \<and> 1 \<le> m \<and> m \<le> 12 \<and> \<not> (y = 9999 \<and> m = 12) \<longrightarrow>
      (\<exists>out. get_schedule_by_month L d y m = Inr out)"
    using month_returns [of y m L d] by blast
  have f: "chronological (map (\<lambda>x. text_key (ev_start x)) (get_today_schedule_full L d today limit))"
    using sorted_today_full by (rule sorted_chronological)
  have g: "chronological (map (\<lambda>x. text_key (snd x)) (get_today_schedule L d today limit))"
    using sorted_today by (rule sorted_chronological)
  show ?thesis using a b c e f g by (intro conjI)
qed

theorem expansion_is_chronological_witness:
  "(\<exists>out. get_schedule_by_date_range example_lib busy_db (jan 3) (jan 3) = Inr out \<and>
      chronological (map (\<lambda>x. text_key (ev_start x)) out) \<and>
      map ev_start out
        = [Some ''2024-01-03T08:30:00'', Some ''2024-01-03T09:00:00'', Some ''2024-01-03T14:00:00'']) \<and>
   (\<exists>out. get_schedule_by_month example_lib busy_db 2024 1 = Inr out \<and>
      chronological (map (\<lambda>x. text_key (ev_start x)) out)) \<and>
   chronological (map (\<lambda>x. text_key (ev_start x)) (get_today_schedule_full example_lib busy_db (jan 3) 3)) \<and>
   chronological (map (\<lambda>x. text_key (snd x)) (get_today_schedule example_lib busy_db (jan 3) 3))"
proof -
  have v: "valid_date (jan 3)" "jan 3 \<noteq> max_date"
    by code_simp+
  have a: "map ev_start (day_schedule example_lib busy_db (jan 3))
     = [Some ''2024-01-03T08:30:00'', Some ''2024-01-03T09:00:00'', Some ''2024-01-03T14:00:00'']"
    by code_simp
  have r: "get_schedule_by_date_range example_lib busy_db (jan 3) (jan 3)
             = Inr (day_schedule example_lib busy_db (jan 3))"
    using v by (rule range_single_day)
  have h: "(1::int) \<le> 2024 \<and> (2024::int) \<le> 9999 \<and> (1::int) \<le> 1 \<and> (1::int) \<le> 12 \<and>
           \<not> ((2024::int) = 9999 \<and> (1::int) = 12)"
    by simp
  show ?thesis
    using expansion_is_chronological [of example_lib busy_db "jan 3" "jan 3" 2024 1 "jan 3" 3]
      a r h
    by (simp del: One_nat_def) blast
qed

text \<open>
  C9. For a limit N that is not negative, the today queries return the first N entries
  of the sorted list of that day's one-shot and recurring occurrences, which is the list
  the range query returns for the single day (for every valid day before 9999-12-31,
  where that query returns): the cut comes after the sort, so no entry left out sorts
  before an entry returned.
\<close>

theorem today_schedule_truncates_after_sort:
  assumes "0 \<le> limit"
  shows "get_today_schedule_full L d today limit
           = take (nat limit) (day_schedule L d today) \<and>
         get_today_schedule L d today limit
           = map title_start (take (nat limit) (day_schedule L d today)) \<and>
         day_schedule L d today
           = sort_events (one_shots_between L d today today @
                          concat (map (instance_on L today) (recurring_events d))) \<and>
         (valid_date today \<and> today \<noteq> max_date \<longrightarrow>
            get_schedule_by_date_range L d today today = Inr (day_schedule L d today)) \<and>
         (\<forall>x \<in> set (take (nat limit) (day_schedule L d today)).
            \<forall>y \<in> set (drop (nat limit) (day_schedule L d today)).
              text_key (ev_start x) \<le> text_key (ev_start y))"
proof -
  let ?R = "day_schedule L d today"
  have "sorted (map (\<lambda>x. text_key (ev_start x)) (take (nat limit) ?R @ drop (nat limit) ?R))"
    using sorted_day_schedule [of L d today] by simp
  then have o: "\<forall>x \<in> set (take (nat limit) ?R). \<forall>y \<in> set (drop (nat limit) ?R).
              text_key (ev_start x) \<le> text_key (ev_start y)"
    unfolding map_append sorted_append by auto
  have m: "?R = sort_events (one_shots_between L d today today @
                          concat (map (instance_on L today) (recurring_events d)))"
    by (simp add: day_schedule_def)
  have r: "valid_date today \<and> today \<noteq> max_date \<longrightarrow>
            get_schedule_by_date_range L d today today = Inr ?R"
    using range_single_day by blast
  have f: "get_today_schedule_full L d today limit = take (nat limit) ?R"
    using assms by (simp add: today_full_day slice_to_def)
  have p: "get_today_schedule L d today limit = map title_start (take (nat limit) ?R)"
    using assms by (simp add: today_pairs_day slice_to_def)
  show ?thesis using f p m r o by (intro conjI)
qed

theorem today_schedule_truncates_after_sort_witness:
  "get_today_schedule_full example_lib busy_db (jan 3) 2
     = take (nat 2) (day_schedule example_lib busy_db (jan 3)) \<and>
   get_schedule_by_date_range example_lib busy_db (jan 3) (jan 3)
     = Inr (day_schedule example_lib busy_db (jan 3)) \<and>
   get_today_schedule example_lib busy_db (jan 3) 2
     = [(''Lunch'', Some ''2024-01-03T08:30:00''), (''Standup'', Some ''2024-01-03T09:00:00'')]"
proof -
  have h: "(0::int) \<le> 2" by simp
  have v: "valid_date (jan 3) \<and> jan 3 \<noteq> max_date"
    by code_simp
  have a: "map title_start (take (nat 2) (day_schedule example_lib busy_db (jan 3)))
     = [(''Lunch'', Some ''2024-01-03T08:30:00''), (''Standup'', Some ''2024-01-03T09:00:00'')]"
    by code_simp
  show ?thesis
    using today_schedule_truncates_after_sort [OF h, of example_lib busy_db "jan 3"] a v
    by (simp del: One_nat_def)
qed

section \<open>Invalid bounds and malformed records\<close>






section \<open>Adding a schedule item\<close>

text \<open>
  C10. For a task whose start time is absent or empty, \<open>add_schedule_item\<close> raises
  ValueError, and since the result is the error alone the stored rows are the ones before
  the call. For a task with a non-empty start time it returns the database with exactly
  one row appended, carrying the task's fields under a fresh id.
\<close>

theorem add_schedule_item_spec:
  "(falsy (start_time t) \<longrightarrow> add_schedule_item d t = Inl ValueError) \<and>
   (\<not> falsy (start_time t) \<longrightarrow>
      (\<exists>r. add_schedule_item d t = Inr \<lparr>tasks = tasks d @ [r], seq = seq d + 1\<rparr> \<and>
           c_id r = seq d + 1 \<and> c_title r = title t \<and> c_start_time r = start_time t \<and>
           c_completed r = int_of_bool (completed t) \<and> c_source r = source t \<and>
           c_event_id r = event_id t \<and>
           c_is_recurring r = Some (int_of_bool (is_recurring t)) \<and>
           c_repeat_days r = repeat_days t \<and> c_priority r = priority t))"
  by (simp add: add_schedule_item_def add_task_def)

theorem add_schedule_item_spec_witness:
  "add_schedule_item \<lparr>tasks = [], seq = 0\<rparr>
     \<lparr>title = ''a'', start_time = None, completed = False, source = ''local'',
      event_id = None, is_recurring = False, repeat_days = None, priority = ''medium''\<rparr>
     = Inl ValueError \<and>
   (\<exists>r. add_schedule_item \<lparr>tasks = [], seq = 0\<rparr>
     \<lparr>title = ''a'', start_time = Some ''2024-01-01T09:00:00'', completed = False,
      source = ''local'', event_id = None, is_recurring = False, repeat_days = None,
      priority = ''medium''\<rparr>
     = Inr \<lparr>tasks = [] @ [r], seq = 0 + 1\<rparr> \<and> c_id r = 1)"
  using add_schedule_item_spec
    [of "\<lparr>title = ''a'', start_time = None, completed = False, source = ''local'',
      event_id = None, is_recurring = False, repeat_days = None, priority = ''medium''\<rparr>"
      "\<lparr>tasks = [], seq = 0\<rparr>"]
    add_schedule_item_spec
    [of "\<lparr>title = ''a'', start_time = Some ''2024-01-01T09:00:00'', completed = False,
      source = ''local'', event_id = None, is_recurring = False, repeat_days = None,
      priority = ''medium''\<rparr>"
      "\<lparr>tasks = [], seq = 0\<rparr>"]
  by (auto simp: falsy_def)

end
